theory Spec2Isabelle
  imports Complex_Main
begin

section \<open>Data model (src/state/schema.py)\<close>

text \<open>
  An exception is carried by its text, the \<open>str(e)\<close> of the Python exception object.
\<close>

type_synonym exn = string

text \<open>\<open>SubagentTask\<close>: six string fields, none with a length constraint.\<close>

record SubagentTask =
  task_id :: string
  objective :: string
  search_strategy :: string
  output_format :: string
  tool_guidance :: string
  boundaries :: string

text \<open>
  A source is a Python dict with the keys \<open>url\<close>, \<open>title\<close>, \<open>snippet\<close> and an optional
  \<open>score\<close>. Python compares two such dicts key by key, which is the equality of the
  record.
\<close>

record Source =
  url :: string
  title :: string
  snippet :: string
  score :: "rat option"

text \<open>\<open>SubagentResult\<close>; the field \<open>confidence\<close> is a number between 0 and 1.\<close>

record SubagentResult =
  result_task_id :: string
  findings :: string
  sources :: "Source list"
  confidence :: rat
  gaps :: "string list"

record ResearchPlan =
  query_complexity :: string
  estimated_subagents :: int
  strategy :: string
  plan_tasks :: "SubagentTask list"

section \<open>The research worker and the batch executor (src/agents/subagent.py)\<close>

text \<open>
  What the \<open>try\<close> block of \<open>execute_subagent_task\<close> makes of the agent's final text:
  the decoded JSON object with the keys it carries (an absent key is \<open>None\<close>), a
  \<open>json.JSONDecodeError\<close> or \<open>ValueError\<close>, or any other exception with its text.
\<close>

datatype decoded =
    Data "string option" "Source list option" "rat option" "string list option"
  | NotJson
  | OtherError exn

text \<open>
  An exception object that ends a coroutine, with its text: an instance of
  \<open>Exception\<close>, or an \<open>asyncio.CancelledError\<close>, which is a \<open>BaseException\<close> and not an
  \<open>Exception\<close>.
\<close>

datatype exc = Exception exn | CancelledError exn

text \<open>
  \<open>execute_subagent_task\<close>. The agent run (\<open>await asyncio.to_thread(agent.invoke, ...)\<close>)
  either ends in an exception object or gives the content of the final message;
  \<open>decode\<close> stands for \<open>json.loads\<close> on the content stripped of its code fences
  together with the validation of the result model. An exception of the agent run
  leaves the coroutine (\<open>Inl\<close>); every return carries the id of the task it was given.
\<close>

definition execute_subagent_task ::
  "(SubagentTask \<Rightarrow> exc + string) \<Rightarrow> (string \<Rightarrow> decoded) \<Rightarrow> SubagentTask \<Rightarrow> exc + SubagentResult"
where
  "execute_subagent_task agent decode task =
     (case agent task of
        Inl e \<Rightarrow> Inl e
      | Inr content \<Rightarrow>
          (case decode content of
             Data f s c g \<Rightarrow>
               Inr \<lparr>result_task_id = task_id task,
                    findings = (case f of None \<Rightarrow> content | Some t \<Rightarrow> t),
                    sources = (case s of None \<Rightarrow> [] | Some l \<Rightarrow> l),
                    confidence = (case c of None \<Rightarrow> 7 / 10 | Some q \<Rightarrow> q),
                    gaps = (case g of None \<Rightarrow> [] | Some l \<Rightarrow> l)\<rparr>
           | NotJson \<Rightarrow>
               Inr \<lparr>result_task_id = task_id task, findings = content, sources = [],
                    confidence = 1 / 2,
                    gaps = [''Response was not in expected JSON format'']\<rparr>
           | OtherError e \<Rightarrow>
               Inr \<lparr>result_task_id = task_id task, findings = content, sources = [],
                    confidence = 3 / 10,
                    gaps = [''Error parsing response: '' @ e]\<rparr>))"

text \<open>
  The loop of \<open>run_subagents_parallel\<close> over \<open>enumerate(results)\<close>. An entry that is an
  instance of \<open>Exception\<close> becomes a result built from \<open>tasks[i]\<close>; anything else is
  appended as it is by the \<open>else\<close> branch: a result, and also a \<open>CancelledError\<close>,
  which \<open>isinstance(result, Exception)\<close> does not recognise. The list returned
  therefore holds results (\<open>Inr\<close>) and, possibly, raw exception objects (\<open>Inl\<close>).
\<close>

fun collect_results ::
  "SubagentTask list \<Rightarrow> (nat \<times> (exc + SubagentResult)) list
     \<Rightarrow> (exc + SubagentResult) list \<Rightarrow> (exc + SubagentResult) list"
where
  "collect_results tasks [] valid_results = valid_results"
| "collect_results tasks ((i, Inl (Exception e)) # rest) valid_results =
     collect_results tasks rest
       (valid_results @
          [Inr \<lparr>result_task_id = task_id (tasks ! i), findings = ''Error: '' @ e,
                sources = [], confidence = 0, gaps = [''Subagent execution failed'']\<rparr>])"
| "collect_results tasks ((i, Inl (CancelledError e)) # rest) valid_results =
     collect_results tasks rest (valid_results @ [Inl (CancelledError e)])"
| "collect_results tasks ((i, Inr r) # rest) valid_results =
     collect_results tasks rest (valid_results @ [Inr r])"

text \<open>
  \<open>run_subagents_parallel\<close>: \<open>asyncio.gather\<close> with \<open>return_exceptions=True\<close> gives one
  entry per coroutine, in the order of the tasks, whatever the order of completion:
  the result of the coroutine or the exception object that ended it.
\<close>

definition run_subagents_parallel ::
  "(SubagentTask \<Rightarrow> exc + string) \<Rightarrow> (string \<Rightarrow> decoded) \<Rightarrow> SubagentTask list
     \<Rightarrow> (exc + SubagentResult) list"
where
  "run_subagents_parallel agent decode tasks =
     collect_results tasks
       (enumerate 0 (map (execute_subagent_task agent decode) tasks)) []"

section \<open>Decoded JSON values\<close>

text \<open>
  The value that \<open>json.loads\<close> returns. An object is a Python dict, given by its items;
  only lookups by key are made on it.
\<close>

datatype json =
    JNull
  | JBool bool
  | JInt int
  | JFloat rat
  | JStr string
  | JArr "json list"
  | JObj "(string \<times> json) list"

text \<open>\<open>d.get(k, default)\<close> on a dict.\<close>

definition dict_get :: "(string \<times> json) list \<Rightarrow> string \<Rightarrow> json \<Rightarrow> json" where
  "dict_get d k dflt = (case map_of d k of None \<Rightarrow> dflt | Some v \<Rightarrow> v)"

text \<open>The truth value Python gives a decoded value in \<open>if v:\<close> and \<open>v and w\<close>.\<close>

fun truthy :: "json \<Rightarrow> bool" where
  "truthy JNull = False"
| "truthy (JBool b) = b"
| "truthy (JInt i) = (i \<noteq> 0)"
| "truthy (JFloat q) = (q \<noteq> 0)"
| "truthy (JStr s) = (s \<noteq> [])"
| "truthy (JArr xs) = (xs \<noteq> [])"
| "truthy (JObj d) = (d \<noteq> [])"

text \<open>
  \<open>for x in v\<close>: a list gives its elements, a string its characters, a dict its keys;
  on any other value the loop raises a \<open>TypeError\<close> (\<open>None\<close> here).
\<close>

fun py_iter :: "json \<Rightarrow> json list option" where
  "py_iter (JArr xs) = Some xs"
| "py_iter (JStr s) = Some (map (\<lambda>c. JStr [c]) s)"
| "py_iter (JObj d) = Some (map (\<lambda>kv. JStr (fst kv)) d)"
| "py_iter JNull = None"
| "py_iter (JBool b) = None"
| "py_iter (JInt i) = None"
| "py_iter (JFloat q) = None"

text \<open>
  The name of the Python type of a decoded value, and a text between single quotes, as
  the messages of \<open>TypeError\<close> and \<open>AttributeError\<close> print them.
\<close>

fun type_name :: "json \<Rightarrow> string" where
  "type_name JNull = ''NoneType''"
| "type_name (JBool b) = ''bool''"
| "type_name (JInt i) = ''int''"
| "type_name (JFloat q) = ''float''"
| "type_name (JStr s) = ''str''"
| "type_name (JArr xs) = ''list''"
| "type_name (JObj d) = ''dict''"

definition quoted :: "string \<Rightarrow> string" where
  "quoted s = CHR 0x27 # s @ [CHR 0x27]"

text \<open>The text of the \<open>TypeError\<close> of \<open>0 < v\<close> for a value that is not a number.\<close>

definition not_comparable :: "json \<Rightarrow> exn" where
  "not_comparable v =
     quoted ''<'' @ '' not supported between instances of '' @ quoted ''int'' @ '' and '' @
     quoted (type_name v)"

text \<open>Decimal text of a number, as an f-string prints it.\<close>

function str_nat :: "nat \<Rightarrow> string" where
  "str_nat n =
     (if n < 10 then [char_of (48 + n)] else str_nat (n div 10) @ [char_of (48 + n mod 10)])"
  by pat_completeness auto
termination
  by (relation "measure id") auto

declare str_nat.simps [simp del]

definition str_int :: "int \<Rightarrow> string" where
  "str_int i = (if i < 0 then CHR ''-'' # str_nat (nat (- i)) else str_nat (nat i))"

section \<open>The graph state (src/state/schema.py, \<open>AgentState\<close>)\<close>

datatype message = HumanMessage string | AIMessage string

text \<open>
  Every key of \<open>AgentState\<close> is set by \<open>get_initial_state\<close>, so the defaults of the
  \<open>state.get\<close> calls are never used. \<open>memory_context\<close> holds whatever value the
  synthesis response carried under \<open>synthesis\<close>, a string in the expected case.
\<close>

record AgentState =
  messages :: "message list"
  research_plan :: "ResearchPlan option"
  subagent_tasks :: "SubagentTask list"
  subagent_results :: "SubagentResult list"
  memory_context :: json
  iteration_count :: int
  max_iterations :: int
  research_complete :: bool
  all_sources :: "Source list"
  conversation_id :: string
  output_dir :: string
  provider :: string

text \<open>\<open>get_initial_state\<close> (src/graph/workflow.py).\<close>

definition get_initial_state :: "string \<Rightarrow> string \<Rightarrow> string \<Rightarrow> string \<Rightarrow> AgentState" where
  "get_initial_state query conv out prov =
     \<lparr>messages = [HumanMessage query], research_plan = None, subagent_tasks = [],
      subagent_results = [], memory_context = JStr [], iteration_count = 0,
      max_iterations = 3, research_complete = False, all_sources = [],
      conversation_id = conv, output_dir = out, provider = prov\<rparr>"

text \<open>The results among the entries of a batch.\<close>

fun findings_of :: "(exc + SubagentResult) list \<Rightarrow> SubagentResult list" where
  "findings_of [] = []"
| "findings_of (Inr r # rest) = r # findings_of rest"
| "findings_of (Inl x # rest) = findings_of rest"

text \<open>
  \<open>subagent_executor_node\<close>: the update it returns, merged into the state (a plain key
  is replaced, \<open>messages\<close> is extended). In the graph an agent run is taken to raise
  instances of \<open>Exception\<close> only (\<open>Inl e\<close> of \<open>agent\<close>), no cancellation; every entry of
  the batch is then a result, and \<open>findings_of\<close> keeps them all.
\<close>

definition subagent_executor_node ::
  "(SubagentTask \<Rightarrow> exn + string) \<Rightarrow> (string \<Rightarrow> decoded) \<Rightarrow> AgentState \<Rightarrow> AgentState"
where
  "subagent_executor_node agent decode state =
     (let tasks = subagent_tasks state in
      if tasks = [] then
        state\<lparr>messages := messages state @ [AIMessage ''No subagent tasks to execute.'']\<rparr>
      else
        (let results = findings_of
                         (run_subagents_parallel
                            (\<lambda>task. case agent task of
                                       Inl e \<Rightarrow> Inl (Exception e)
                                     | Inr content \<Rightarrow> Inr content)
                            decode tasks) in
         state\<lparr>subagent_results := results,
               messages := messages state @
                 [AIMessage (''Executed '' @ str_nat (length results) @
                             '' subagent tasks in parallel.'')]\<rparr>))"

section \<open>Planning and synthesis (src/agents/lead_researcher.py)\<close>

text \<open>
  The scan of \<open>reversed(messages)\<close> for the last human message; the argument is the
  reversed list.
\<close>

fun find_query :: "message list \<Rightarrow> string" where
  "find_query [] = []"
| "find_query (HumanMessage q # rest) = q"
| "find_query (AIMessage a # rest) = find_query rest"

text \<open>
  \<open>lead_researcher_planning_node\<close>. \<open>planned\<close> is the outcome of its \<open>try\<close> block on the
  model's response: \<open>Inl e\<close> when \<open>json.loads\<close>, the construction of a
  \<open>SubagentTask\<close> or of the \<open>ResearchPlan\<close>, or \<open>save_plan\<close> raised \<open>e\<close>; otherwise
  the plan that was built and the name of the file it was saved to.
\<close>

definition lead_researcher_planning_node ::
  "(exn + ResearchPlan \<times> string) \<Rightarrow> AgentState \<Rightarrow> AgentState"
where
  "lead_researcher_planning_node planned state =
     (let user_query = find_query (rev (messages state)) in
      if user_query = [] then
        state\<lparr>messages := messages state @ [AIMessage ''No query found.'']\<rparr>
      else
        (case planned of
           Inr (plan, plan_file) \<Rightarrow>
             state\<lparr>research_plan := Some plan,
                   subagent_tasks := plan_tasks plan,
                   messages := messages state @
                     [AIMessage (''Research plan created with '' @
                                 str_nat (length (plan_tasks plan)) @
                                 '' subagents. Plan saved to '' @ plan_file)],
                   iteration_count := 1\<rparr>
         | Inl e \<Rightarrow>
             state\<lparr>messages := messages state @
                     [AIMessage (''Error creating research plan: '' @ e)]\<rparr>))"

text \<open>
  \<open>_create_synthesis_from_results\<close>; the loop appends one labelled block per result.
\<close>

definition create_synthesis_from_results :: "SubagentResult list \<Rightarrow> string" where
  "create_synthesis_from_results results =
     (if results = [] then ''No research findings available.''
      else fold (\<lambda>result synthesis.
                   synthesis @ ''### '' @ result_task_id result @ [CHR 0x0A, CHR 0x0A] @
                   findings result @ [CHR 0x0A, CHR 0x0A])
             results (''## Research Findings'' @ [CHR 0x0A, CHR 0x0A]))"

text \<open>
  The inner loop that collects sources: \<open>if src not in all_sources: all_sources.append(src)\<close>.
\<close>

fun collect_sources :: "Source list \<Rightarrow> Source list \<Rightarrow> Source list" where
  "collect_sources all_srcs [] = all_srcs"
| "collect_sources all_srcs (src # rest) =
     collect_sources (if src \<in> set all_srcs then all_srcs else all_srcs @ [src]) rest"

text \<open>
  The constructor \<open>SubagentTask\<close> called with the items of a dict as keyword
  arguments (pydantic 2): every field must be there and be a
  string; other keys are ignored. \<open>None\<close> stands for the \<open>ValidationError\<close>.
\<close>

definition str_field :: "(string \<times> json) list \<Rightarrow> string \<Rightarrow> string option" where
  "str_field d k = (case map_of d k of Some (JStr s) \<Rightarrow> Some s | _ \<Rightarrow> None)"

definition make_SubagentTask :: "(string \<times> json) list \<Rightarrow> SubagentTask option" where
  "make_SubagentTask d =
     Option.bind (str_field d ''task_id'') (\<lambda>a.
     Option.bind (str_field d ''objective'') (\<lambda>b.
     Option.bind (str_field d ''search_strategy'') (\<lambda>c.
     Option.bind (str_field d ''output_format'') (\<lambda>f.
     Option.bind (str_field d ''tool_guidance'') (\<lambda>g.
     Option.bind (str_field d ''boundaries'') (\<lambda>h.
       Some \<lparr>task_id = a, objective = b, search_strategy = c, output_format = f,
             tool_guidance = g, boundaries = h\<rparr>))))))"

definition required_keys :: "string list" where
  "required_keys = [''task_id'', ''objective'', ''search_strategy'', ''output_format'',
                    ''tool_guidance'', ''boundaries'']"

text \<open>
  One pass of the body of the loop over \<open>next_tasks\<close>: the task to append, if any.
  On a dict the six keys are looked for and the task is constructed. On anything else
  nothing is appended: the test \<open>k in task_data\<close> raises on a number, a boolean or
  \<open>null\<close>, and where it passes on a string or a list the construction
  of the \<open>SubagentTask\<close> from it raises; the \<open>except\<close> swallows both.
\<close>

fun next_task :: "json \<Rightarrow> SubagentTask option" where
  "next_task (JObj d) =
     (if list_all (\<lambda>k. map_of d k \<noteq> None) required_keys then make_SubagentTask d else None)"
| "next_task JNull = None"
| "next_task (JBool b) = None"
| "next_task (JInt i) = None"
| "next_task (JFloat q) = None"
| "next_task (JStr s) = None"
| "next_task (JArr xs) = None"

fun new_tasks_from :: "json list \<Rightarrow> SubagentTask list" where
  "new_tasks_from [] = []"
| "new_tasks_from (task_data # rest) =
     (case next_task task_data of
        Some t \<Rightarrow> t # new_tasks_from rest
      | None \<Rightarrow> new_tasks_from rest)"

text \<open>
  \<open>lead_researcher_synthesis_node\<close>. \<open>loaded\<close> is what \<open>json.loads\<close> made of the
  response (\<open>Inl\<close>: it raised), \<open>progress\<close> the outcome of \<open>update_progress\<close>
  (\<open>Inl\<close>: the write raised). \<open>fallback\<close> is the return of the \<open>except\<close> branch; it
  is also reached when the decoded value is not a dict (\<open>data.get\<close> raises) and when
  \<open>next_tasks\<close> cannot be iterated.
\<close>

definition lead_researcher_synthesis_node ::
  "(exn + json) \<Rightarrow> (exn + string) \<Rightarrow> AgentState \<Rightarrow> AgentState"
where
  "lead_researcher_synthesis_node loaded progress state =
     (let results = subagent_results state;
          iteration = iteration_count state;
          srcs = fold (\<lambda>result acc. collect_sources acc (sources result)) results
                   (all_sources state);
          fallback =
            state\<lparr>research_complete := True, all_sources := srcs,
                  memory_context := JStr (create_synthesis_from_results results),
                  messages := messages state @
                    [AIMessage ''Synthesis completed. Proceeding to citation.'']\<rparr>
      in case loaded of
           Inl e \<Rightarrow> fallback
         | Inr (JObj d) \<Rightarrow>
             (let synthesis = dict_get d ''synthesis'' (JStr []);
                  needs_more = (truthy (dict_get d ''needs_more_research'' (JBool False))
                                \<and> iteration < max_iterations state);
                  complete =
                    state\<lparr>research_complete := True, all_sources := srcs,
                          memory_context :=
                            (if truthy synthesis then synthesis
                             else JStr (create_synthesis_from_results results)),
                          messages := messages state @
                            [AIMessage (''Research complete after '' @ str_int iteration @
                                        '' iterations. Proceeding to citation.'')]\<rparr>
              in case progress of
                   Inl e \<Rightarrow> fallback
                 | Inr progress_file \<Rightarrow>
                     if needs_more then
                       (case py_iter (dict_get d ''next_tasks'' (JArr [])) of
                          None \<Rightarrow> fallback
                        | Some candidates \<Rightarrow>
                            (let new_tasks = new_tasks_from candidates in
                             if new_tasks \<noteq> [] then
                               state\<lparr>subagent_tasks := new_tasks, subagent_results := [],
                                     iteration_count := iteration + 1,
                                     research_complete := False, all_sources := srcs,
                                     messages := messages state @
                                       [AIMessage (''Iteration '' @ str_int iteration @
                                          '' complete. Starting iteration '' @
                                          str_int (iteration + 1) @ '' with '' @
                                          str_nat (length new_tasks) @ '' new tasks.'')]\<rparr>
                             else complete))
                     else complete)
         | Inr other \<Rightarrow> fallback)"

section \<open>Citation (src/agents/citation_agent.py)\<close>

text \<open>\<open>xs[i]\<close> on a Python list; \<open>None\<close> is the \<open>IndexError\<close>.\<close>

definition py_getitem :: "'a list \<Rightarrow> int \<Rightarrow> 'a option" where
  "py_getitem xs i =
     (if 0 \<le> i \<and> i < int (length xs) then Some (xs ! nat i)
      else if i < 0 \<and> - int (length xs) \<le> i then Some (xs ! nat (int (length xs) + i))
      else None)"

text \<open>
  One element \<open>i\<close> of the comprehension
  \<open>[all_sources[i-1] for i in citations_used if 0 < i <= len(all_sources)]\<close>:
  it raises (\<open>Inl\<close>), is filtered out (\<open>Inr None\<close>) or selects a source. A boolean is
  an integer in Python; a float passes the comparison and fails as an index; any other
  value fails in the comparison.
\<close>

fun pick_cited :: "Source list \<Rightarrow> json \<Rightarrow> exn + Source option" where
  "pick_cited all_srcs (JInt i) =
     (if 0 < i \<and> i \<le> int (length all_srcs) then
        (case py_getitem all_srcs (i - 1) of
           None \<Rightarrow> Inl ''list index out of range''
         | Some src \<Rightarrow> Inr (Some src))
      else Inr None)"
| "pick_cited all_srcs (JBool b) =
     (if b \<and> 1 \<le> int (length all_srcs) then
        (case py_getitem all_srcs 0 of
           None \<Rightarrow> Inl ''list index out of range''
         | Some src \<Rightarrow> Inr (Some src))
      else Inr None)"
| "pick_cited all_srcs (JFloat q) =
     (if 0 < q \<and> q \<le> of_nat (length all_srcs) then
        Inl ''list indices must be integers or slices, not float''
      else Inr None)"
| "pick_cited all_srcs JNull = Inl (not_comparable JNull)"
| "pick_cited all_srcs (JStr s) = Inl (not_comparable (JStr s))"
| "pick_cited all_srcs (JArr xs) = Inl (not_comparable (JArr xs))"
| "pick_cited all_srcs (JObj d) = Inl (not_comparable (JObj d))"

fun select_cited :: "Source list \<Rightarrow> json list \<Rightarrow> exn + Source list" where
  "select_cited all_srcs [] = Inr []"
| "select_cited all_srcs (i # rest) =
     (case pick_cited all_srcs i of
        Inl e \<Rightarrow> Inl e
      | Inr picked \<Rightarrow>
          (case select_cited all_srcs rest of
             Inl e \<Rightarrow> Inl e
           | Inr cited \<Rightarrow> Inr (case picked of None \<Rightarrow> cited | Some src \<Rightarrow> src # cited)))"

text \<open>The \<open>if citations_used: ... else: ...\<close> that chooses the sources of the report.\<close>

definition cited_sources :: "Source list \<Rightarrow> json \<Rightarrow> exn + Source list" where
  "cited_sources all_srcs citations_used =
     (if truthy citations_used then
        (case py_iter citations_used of
           None \<Rightarrow> Inl (quoted (type_name citations_used) @ '' object is not iterable'')
         | Some indices \<Rightarrow> select_cited all_srcs indices)
      else Inr all_srcs)"

text \<open>
  \<open>citation_agent_node\<close>. \<open>loaded\<close> is what \<open>json.loads\<close> made of the response,
  \<open>saved\<close> the outcome of \<open>save_final_report\<close>, \<open>py_str\<close> the text Python prints for a
  value in an f-string. The result is the state after the update and, when the report
  was written, the report with the sources it was written with.
\<close>

definition citation_agent_node ::
  "(json \<Rightarrow> string) \<Rightarrow> (exn + json) \<Rightarrow> (exn + string) \<Rightarrow> AgentState
     \<Rightarrow> AgentState \<times> (json \<times> Source list) option"
where
  "citation_agent_node py_str loaded saved state =
     (let synthesis = memory_context state;
          failed = (\<lambda>e.
            (state\<lparr>messages := messages state @
               [AIMessage (''# Research Report'' @ [CHR 0x0A, CHR 0x0A] @ py_str synthesis @
                  [CHR 0x0A, CHR 0x0A] @ ''---'' @ [CHR 0x0A] @
                  ''*Note: Citation processing failed: '' @ e @ ''*'')]\<rparr>, None))
      in case loaded of
           Inl e \<Rightarrow> failed e
         | Inr (JObj d) \<Rightarrow>
             (let report = dict_get d ''report'' synthesis;
                  citations_used = dict_get d ''citations_used'' (JArr [])
              in case cited_sources (all_sources state) citations_used of
                   Inl e \<Rightarrow> failed e
                 | Inr cited \<Rightarrow>
                     (case saved of
                        Inl e \<Rightarrow> failed e
                      | Inr report_file \<Rightarrow>
                          (state\<lparr>messages := messages state @
                             [AIMessage (''# Research Report'' @ [CHR 0x0A, CHR 0x0A] @
                                py_str report @ [CHR 0x0A, CHR 0x0A] @ ''---'' @ [CHR 0x0A] @
                                ''*Report saved to: '' @ report_file @ ''*'')]\<rparr>,
                           Some (report, cited))))
         | Inr other \<Rightarrow>
             failed (quoted (type_name other) @ '' object has no attribute '' @ quoted ''get''))"

section \<open>The workflow graph (src/graph/workflow.py)\<close>

datatype research_route = Continue | Citation

datatype task_route = Execute | Synthesize

definition should_continue_research :: "AgentState \<Rightarrow> research_route" where
  "should_continue_research state =
     (if research_complete state \<or> iteration_count state \<ge> max_iterations state
      then Citation else Continue)"

definition has_tasks :: "AgentState \<Rightarrow> task_route" where
  "has_tasks state = (if subagent_tasks state \<noteq> [] then Execute else Synthesize)"

datatype node = lead_planning | subagent_executor | lead_synthesis | citation_agent | END

text \<open>
  What lies outside the program: the responses of the language model to each node's
  prompt (already through each node's \<open>try\<close> block as described above), the agent
  runs (\<open>Inl e\<close>: the run raised an \<open>Exception\<close> with text \<open>e\<close>; a cancelled run is not
  part of the graph model), and the outcome of the file writes. Each may depend on the
  state it is called in.
\<close>

record env =
  env_planner :: "AgentState \<Rightarrow> exn + ResearchPlan \<times> string"
  env_agent :: "SubagentTask \<Rightarrow> exn + string"
  env_decode :: "string \<Rightarrow> decoded"
  env_synthesis :: "AgentState \<Rightarrow> exn + json"
  env_progress :: "AgentState \<Rightarrow> exn + string"
  env_citation :: "AgentState \<Rightarrow> exn + json"
  env_report :: "AgentState \<Rightarrow> exn + string"
  env_str :: "json \<Rightarrow> string"

text \<open>
  One step of the graph built by \<open>build_graph\<close>: run the node, then follow its edge.
  The conditional edges are those of the two \<open>add_conditional_edges\<close> calls.
\<close>

fun step :: "env \<Rightarrow> node \<Rightarrow> AgentState \<Rightarrow> node \<times> AgentState" where
  "step e lead_planning state =
     (let state' = lead_researcher_planning_node (env_planner e state) state in
      (case has_tasks state' of
         Execute \<Rightarrow> subagent_executor
       | Synthesize \<Rightarrow> lead_synthesis,
       state'))"
| "step e subagent_executor state =
     (lead_synthesis, subagent_executor_node (env_agent e) (env_decode e) state)"
| "step e lead_synthesis state =
     (let state' = lead_researcher_synthesis_node (env_synthesis e state)
                     (env_progress e state) state in
      (case should_continue_research state' of
         Continue \<Rightarrow> lead_planning
       | Citation \<Rightarrow> citation_agent,
       state'))"
| "step e citation_agent state =
     (END, fst (citation_agent_node (env_str e) (env_citation e state)
                  (env_report e state) state))"
| "step e END state = (END, state)"

text \<open>
  Running the graph from a node for at most \<open>fuel\<close> steps: the final state when \<open>END\<close>
  is reached within them, \<open>None\<close> otherwise.
\<close>

fun run :: "env \<Rightarrow> nat \<Rightarrow> node \<Rightarrow> AgentState \<Rightarrow> AgentState option" where
  "run e fuel END state = Some state"
| "run e 0 nd state = None"
| "run e (Suc fuel) nd state = (case step e nd state of (nd', state') \<Rightarrow> run e fuel nd' state')"

text \<open>The node and state after \<open>n\<close> steps.\<close>

fun steps :: "env \<Rightarrow> nat \<Rightarrow> node \<times> AgentState \<Rightarrow> node \<times> AgentState" where
  "steps e 0 c = c"
| "steps e (Suc n) c = steps e n (step e (fst c) (snd c))"

section \<open>Scenarios\<close>

text \<open>
  A batch of four subtasks in which the agent run of the second raises an
  \<open>Exception\<close>; the other runs answer with the JSON text of the empty object, which is
  decoded to a dict without keys, and any other text is not JSON.
\<close>

definition mk_task :: "string \<Rightarrow> SubagentTask" where
  "mk_task i = \<lparr>task_id = i, objective = ''find facts'', search_strategy = ''broad'',
                output_format = ''list'', tool_guidance = ''search_web'', boundaries = ''none''\<rparr>"

definition p5_tasks :: "SubagentTask list" where
  "p5_tasks = [mk_task ''t1'', mk_task ''t2'', mk_task ''t3'', mk_task ''t4'']"

definition p5_agent :: "SubagentTask \<Rightarrow> exc + string" where
  "p5_agent t = (if task_id t = ''t2'' then Inl (Exception ''boom'') else Inr ''{}'')"

definition p5_decode :: "string \<Rightarrow> decoded" where
  "p5_decode content = (if content = ''{}'' then Data None None None None else NotJson)"

text \<open>
  The same surroundings, except that the agent run of \<open>t2\<close> is cancelled
  (\<open>str(asyncio.CancelledError())\<close> is the empty text).
\<close>

definition cancelled_agent :: "SubagentTask \<Rightarrow> exc + string" where
  "cancelled_agent t = (if task_id t = ''t2'' then Inl (CancelledError []) else Inr ''{}'')"

text \<open>Two sources that share a URL and differ in title and snippet.\<close>

definition first_seen :: Source where
  "first_seen = \<lparr>url = ''http://a.example'', title = ''First title'', snippet = ''one'', score = None\<rparr>"

definition seen_again :: Source where
  "seen_again = \<lparr>url = ''http://a.example'', title = ''Second title'', snippet = ''two'', score = None\<rparr>"

text \<open>The dict \<open>d\<close> carries the six fields of the task \<open>t\<close>, each as a string.\<close>

definition has_fields :: "(string \<times> json) list \<Rightarrow> SubagentTask \<Rightarrow> bool" where
  "has_fields d t \<longleftrightarrow>
     map_of d ''task_id'' = Some (JStr (task_id t)) \<and>
     map_of d ''objective'' = Some (JStr (objective t)) \<and>
     map_of d ''search_strategy'' = Some (JStr (search_strategy t)) \<and>
     map_of d ''output_format'' = Some (JStr (output_format t)) \<and>
     map_of d ''tool_guidance'' = Some (JStr (tool_guidance t)) \<and>
     map_of d ''boundaries'' = Some (JStr (boundaries t))"

text \<open>
  Surroundings that answer the same in every state: a planning outcome and a synthesis
  response are given; every agent run returns plain text, every write succeeds.
\<close>

definition const_env :: "(exn + ResearchPlan \<times> string) \<Rightarrow> (exn + json) \<Rightarrow> env" where
  "const_env planned synthesized =
     \<lparr>env_planner = (\<lambda>state. planned),
      env_agent = (\<lambda>task. Inr ''report''),
      env_decode = (\<lambda>content. NotJson),
      env_synthesis = (\<lambda>state. synthesized),
      env_progress = (\<lambda>state. Inr ''research_progress.md''),
      env_citation = (\<lambda>state. Inl ''Expecting value''),
      env_report = (\<lambda>state. Inr ''final_report.md''),
      env_str = (\<lambda>v. case v of JStr s \<Rightarrow> s | _ \<Rightarrow> ''value'')\<rparr>"

text \<open>The state of a session whose first planning pass has succeeded.\<close>

definition round1_state :: AgentState where
  "round1_state = (get_initial_state ''query'' ''c0ffee00'' ''out'' ''openai'')\<lparr>iteration_count := 1\<rparr>"

text \<open>
  A synthesis response that asks for more research and proposes two candidates, a dict
  without the directive fields and a bare string.
\<close>

definition stalled_items :: "(string \<times> json) list" where
  "stalled_items =
     [(''synthesis'', JStr ''partial''), (''needs_more_research'', JBool True),
      (''next_tasks'', JArr [JObj [(''task_id'', JStr ''n1'')], JStr ''look further''])]"

text \<open>
  A synthesis response that asks for more research and proposes one candidate with all
  six fields, the id and the objective empty.
\<close>

definition blank_items :: "(string \<times> json) list" where
  "blank_items =
     [(''synthesis'', JStr ''partial''), (''needs_more_research'', JBool True),
      (''next_tasks'',
         JArr [JObj [(''task_id'', JStr []), (''objective'', JStr []),
                     (''search_strategy'', JStr ''broad''), (''output_format'', JStr ''list''),
                     (''tool_guidance'', JStr ''search_web''), (''boundaries'', JStr ''none'')]])]"

text \<open>A plan with one subtask.\<close>

definition plan_one :: ResearchPlan where
  "plan_one = \<lparr>query_complexity = ''simple'', estimated_subagents = 1,
               strategy = ''one search'', plan_tasks = [mk_task ''p1'']\<rparr>"

text \<open>
  A synthesis response that asks for more research and proposes one well-formed next
  subtask.
\<close>

definition more_items :: "(string \<times> json) list" where
  "more_items =
     [(''synthesis'', JStr ''partial''), (''needs_more_research'', JBool True),
      (''next_tasks'',
         JArr [JObj [(''task_id'', JStr ''n1''), (''objective'', JStr ''find facts''),
                     (''search_strategy'', JStr ''broad''), (''output_format'', JStr ''list''),
                     (''tool_guidance'', JStr ''search_web''), (''boundaries'', JStr ''none'')]])]"

text \<open>
  Surroundings in which every planning pass gives the one-subtask plan and every
  synthesis pass asks for more research.
\<close>

definition loop_env :: env where
  "loop_env = const_env (Inr (plan_one, ''research_plan.md'')) (Inr (JObj more_items))"

text \<open>A fresh session with the default budget of three iterations.\<close>

definition start_state :: AgentState where
  "start_state = get_initial_state ''query'' ''c0ffee00'' ''out'' ''openai''"

text \<open>
  A finished session holding two sources, and a citation response that cites the
  indices 0, 1, 3, 2 and -1.
\<close>

definition cite_state :: AgentState where
  "cite_state =
     round1_state\<lparr>all_sources := [first_seen, seen_again], memory_context := JStr ''partial'',
                  research_complete := True\<rparr>"

definition cite_items :: "(string \<times> json) list" where
  "cite_items =
     [(''report'', JStr ''Findings [1][2]''),
      (''citations_used'', JArr (map JInt [0, 1, 3, 2, - 1]))]"

section \<open>Properties of the batch executor\<close>

lemma collect_results_map:
  "collect_results tasks irs acc =
     acc @ map (\<lambda>(i, r). case r of
                  Inl (Exception e) \<Rightarrow>
                    Inr \<lparr>result_task_id = task_id (tasks ! i), findings = ''Error: '' @ e,
                         sources = [], confidence = 0,
                         gaps = [''Subagent execution failed'']\<rparr>
                | Inl (CancelledError e) \<Rightarrow> Inl (CancelledError e)
                | Inr x \<Rightarrow> Inr x) irs"
  by (induction tasks irs acc rule: collect_results.induct) simp_all

lemma execute_keeps_id:
  "execute_subagent_task agent decode t = Inr r \<Longrightarrow> result_task_id r = task_id t"
  by (auto simp: execute_subagent_task_def split: sum.splits decoded.splits)

lemma run_length: "length (run_subagents_parallel agent decode tasks) = length tasks"
  by (simp add: run_subagents_parallel_def collect_results_map)

lemma run_nth:
  assumes "i < length tasks"
  shows "run_subagents_parallel agent decode tasks ! i =
     (case execute_subagent_task agent decode (tasks ! i) of
        Inl (Exception e) \<Rightarrow>
          Inr \<lparr>result_task_id = task_id (tasks ! i), findings = ''Error: '' @ e,
               sources = [], confidence = 0, gaps = [''Subagent execution failed'']\<rparr>
      | Inl (CancelledError e) \<Rightarrow> Inl (CancelledError e)
      | Inr x \<Rightarrow> Inr x)"
  using assms
  by (simp add: run_subagents_parallel_def collect_results_map nth_enumerate_eq
      split: sum.splits exc.splits)

lemma p5_returns:
  "task_id t \<noteq> ''t2'' \<Longrightarrow>
   execute_subagent_task p5_agent p5_decode t =
     Inr \<lparr>result_task_id = task_id t, findings = ''{}'', sources = [], confidence = 7 / 10,
          gaps = []\<rparr>"
  "task_id t \<noteq> ''t2'' \<Longrightarrow>
   execute_subagent_task cancelled_agent p5_decode t =
     Inr \<lparr>result_task_id = task_id t, findings = ''{}'', sources = [], confidence = 7 / 10,
          gaps = []\<rparr>"
  by (simp_all add: execute_subagent_task_def p5_agent_def cancelled_agent_def p5_decode_def)

text \<open>
  C3. In a batch of two subtasks in which the agent run of the second is cancelled, the
  list returned holds the finding of the first subtask and, in second place, the raw
  \<open>CancelledError\<close> object: not a finding, and nothing that carries the id \<open>t2\<close>.
\<close>

theorem cancelled_entry_is_raw:
  "run_subagents_parallel cancelled_agent p5_decode [mk_task ''t1'', mk_task ''t2''] =
     [Inr \<lparr>result_task_id = ''t1'', findings = ''{}'', sources = [], confidence = 7 / 10,
           gaps = []\<rparr>,
      Inl (CancelledError [])]"
proof -
  have a: "execute_subagent_task cancelled_agent p5_decode (mk_task ''t1'') =
     Inr \<lparr>result_task_id = ''t1'', findings = ''{}'', sources = [], confidence = 7 / 10,
          gaps = []\<rparr>"
    using p5_returns(2) [of "mk_task ''t1''"] by (simp add: mk_task_def)
  have b: "execute_subagent_task cancelled_agent p5_decode (mk_task ''t2'') =
     Inl (CancelledError [])"
    by (simp add: execute_subagent_task_def cancelled_agent_def mk_task_def)
  show ?thesis by (simp add: run_subagents_parallel_def a b)
qed

text \<open>
  C4 (as amended). The entry at each position of the output depends on the execution
  of the subtask at that position alone: where that execution returned a result, the
  result is passed on as it is, whatever happened to its siblings; where it raised an
  \<open>Exception\<close> with text \<open>e\<close>, the entry is a finding that carries the id of the subtask,
  confidence 0, no sources, the single gap \<open>Subagent execution failed\<close> and the text
  \<open>Error: e\<close> as its findings.
\<close>

theorem failure_isolation:
  assumes "i < length tasks"
  shows "(\<forall>e. execute_subagent_task agent decode (tasks ! i) = Inl (Exception e) \<longrightarrow>
            run_subagents_parallel agent decode tasks ! i =
              Inr \<lparr>result_task_id = task_id (tasks ! i), findings = ''Error: '' @ e,
                   sources = [], confidence = 0,
                   gaps = [''Subagent execution failed'']\<rparr>) \<and>
         (\<forall>r. execute_subagent_task agent decode (tasks ! i) = Inr r \<longrightarrow>
            run_subagents_parallel agent decode tasks ! i = Inr r)"
  using run_nth [OF assms, of agent decode] by simp

theorem failure_isolation_witness:
  "1 < length p5_tasks \<and> 2 < length p5_tasks \<and>
   length (run_subagents_parallel p5_agent p5_decode p5_tasks) = 4 \<and>
   execute_subagent_task p5_agent p5_decode (p5_tasks ! 1) = Inl (Exception ''boom'') \<and>
   run_subagents_parallel p5_agent p5_decode p5_tasks ! 1 =
     Inr \<lparr>result_task_id = ''t2'', findings = ''Error: boom'', sources = [], confidence = 0,
          gaps = [''Subagent execution failed'']\<rparr> \<and>
   execute_subagent_task p5_agent p5_decode (p5_tasks ! 2) =
     Inr \<lparr>result_task_id = ''t3'', findings = ''{}'', sources = [], confidence = 7 / 10,
          gaps = []\<rparr> \<and>
   run_subagents_parallel p5_agent p5_decode p5_tasks ! 2 =
     Inr \<lparr>result_task_id = ''t3'', findings = ''{}'', sources = [], confidence = 7 / 10,
          gaps = []\<rparr>"
proof -
  have l: "1 < length p5_tasks" "2 < length p5_tasks" by (simp_all add: p5_tasks_def)
  have e1: "execute_subagent_task p5_agent p5_decode (p5_tasks ! 1) = Inl (Exception ''boom'')"
    by (simp add: execute_subagent_task_def p5_agent_def p5_tasks_def mk_task_def)
  have e2: "execute_subagent_task p5_agent p5_decode (p5_tasks ! 2) =
      Inr \<lparr>result_task_id = ''t3'', findings = ''{}'', sources = [], confidence = 7 / 10,
      gaps = []\<rparr>"
    using p5_returns(1) [of "p5_tasks ! 2"] by (simp add: p5_tasks_def mk_task_def)
  have t: "task_id (p5_tasks ! 1) = ''t2''" by (simp add: p5_tasks_def mk_task_def)
  have n: "length p5_tasks = 4" by (simp add: p5_tasks_def)
  show ?thesis
    using l failure_isolation [OF l(1), of p5_agent p5_decode]
      failure_isolation [OF l(2), of p5_agent p5_decode] e1 e2 t n
    by (simp add: run_length)
qed

text \<open>
  The gap entry of a failed subtask is a fixed text; the cause \<open>boom\<close> is not part
  of it.
\<close>

theorem failure_gap_counterexample:
  "run_subagents_parallel p5_agent p5_decode p5_tasks ! 1 =
     Inr \<lparr>result_task_id = ''t2'', findings = ''Error: boom'', sources = [], confidence = 0,
          gaps = [''Subagent execution failed'']\<rparr> \<and>
   [''Subagent execution failed''] \<noteq> [''execution failed: boom'']"
proof -
  have l: "1 < length p5_tasks" by (simp add: p5_tasks_def)
  have e1: "execute_subagent_task p5_agent p5_decode (p5_tasks ! 1) = Inl (Exception ''boom'')"
    by (simp add: execute_subagent_task_def p5_agent_def p5_tasks_def mk_task_def)
  have t: "task_id (p5_tasks ! 1) = ''t2''" by (simp add: p5_tasks_def mk_task_def)
  show ?thesis using run_nth [OF l, of p5_agent p5_decode] e1 t by simp
qed

text \<open>
  Without a cancellation every entry of the batch is a finding, so that the executor
  node, whose agent runs raise instances of \<open>Exception\<close> only, stores the whole batch.
\<close>

lemma findings_of_all_results:
  "\<forall>x \<in> set entries. \<exists>r. x = Inr r \<Longrightarrow> map Inr (findings_of entries) = entries"
  by (induction entries rule: findings_of.induct) auto

lemma uncancelled_entries:
  assumes "\<And>t c. agent t \<noteq> Inl (CancelledError c)"
  shows "map Inr (findings_of (run_subagents_parallel agent decode tasks)) =
         run_subagents_parallel agent decode tasks"
proof (rule findings_of_all_results, rule ballI)
  fix x assume "x \<in> set (run_subagents_parallel agent decode tasks)"
  then obtain i where i: "i < length tasks" "x = run_subagents_parallel agent decode tasks ! i"
    by (auto simp: in_set_conv_nth run_length)
  have "\<And>c. execute_subagent_task agent decode (tasks ! i) \<noteq> Inl (CancelledError c)"
    using assms by (auto simp: execute_subagent_task_def split: sum.splits decoded.splits)
  then show "\<exists>r. x = Inr r"
    using i run_nth [OF i(1), of agent decode] by (auto split: sum.splits exc.splits)
qed


lemma executor_keeps_batch:
  "map Inr (findings_of (run_subagents_parallel
      (\<lambda>task. case agent task of Inl e \<Rightarrow> Inl (Exception e) | Inr content \<Rightarrow> Inr content)
      decode tasks)) =
   run_subagents_parallel
      (\<lambda>task. case agent task of Inl e \<Rightarrow> Inl (Exception e) | Inr content \<Rightarrow> Inr content)
      decode tasks"
  by (rule uncancelled_entries) (simp split: sum.splits)

section \<open>Properties of the source accumulation\<close>

lemma collect_sources_set: "set (collect_sources a s) = set a \<union> set s"
  by (induction a s rule: collect_sources.induct) auto

lemma collect_sources_absorb: "set s \<subseteq> set a \<Longrightarrow> collect_sources a s = a"
  by (induction a s rule: collect_sources.induct) auto

lemma collect_sources_new:
  "\<exists>new. collect_sources a s = a @ new \<and> distinct new \<and> set new \<inter> set a = {}"
proof (induction a s rule: collect_sources.induct)
  case (1 a)
  then show ?case by simp
next
  case (2 a src rest)
  show ?case
  proof (cases "src \<in> set a")
    case True
    with 2 show ?thesis by simp
  next
    case False
    with 2 obtain new where n: "collect_sources (a @ [src]) rest = (a @ [src]) @ new"
      "distinct new" "set new \<inter> set (a @ [src]) = {}" by auto
    then have "collect_sources a (src # rest) = a @ (src # new) \<and> distinct (src # new)
       \<and> set (src # new) \<inter> set a = {}" using False by auto
    then show ?thesis by blast
  qed
qed

text \<open>
  C6 (as amended). Accumulating a list of sources into the session-wide list keeps the
  list it starts from, appends each source that is not yet in it (compared as a whole
  record), each once, and is idempotent: accumulating the same list again changes
  nothing.
\<close>

theorem source_merge:
  "set (collect_sources a s) = set a \<union> set s \<and>
   (\<exists>new. collect_sources a s = a @ new \<and> distinct new \<and> set new \<inter> set a = {}) \<and>
   collect_sources (collect_sources a s) s = collect_sources a s"
proof -
  have "set s \<subseteq> set (collect_sources a s)" by (simp add: collect_sources_set)
  then have "collect_sources (collect_sources a s) s = collect_sources a s"
    by (rule collect_sources_absorb)
  with collect_sources_set collect_sources_new show ?thesis by blast
qed

text \<open>
  Two sources with one URL and different titles are both kept.
\<close>

theorem url_dedup_counterexample:
  "url first_seen = url seen_again \<and>
   collect_sources [] [first_seen, seen_again] = [first_seen, seen_again]"
  by (simp add: first_seen_def seen_again_def)


section \<open>Properties of the citation step\<close>

lemma py_getitem_in_range:
  "0 < i \<Longrightarrow> i \<le> int (length xs) \<Longrightarrow> py_getitem xs (i - 1) = Some (xs ! nat (i - 1))"
  by (simp add: py_getitem_def)

lemma select_cited_ints:
  "select_cited a (map JInt cits) =
     Inr (map (\<lambda>i. a ! nat (i - 1)) (filter (\<lambda>i. 0 < i \<and> i \<le> int (length a)) cits))"
  by (induction cits) (simp_all add: py_getitem_in_range)

lemma cited_sources_ints:
  "cited_sources a (JArr (map JInt cits)) =
     Inr (if cits = [] then a
          else map (\<lambda>i. a ! nat (i - 1)) (filter (\<lambda>i. 0 < i \<and> i \<le> int (length a)) cits))"
  by (simp add: cited_sources_def select_cited_ints)

text \<open>
  C10. When the citation response is an object whose \<open>citations_used\<close> is a list of
  integers (or is absent) and the report can be written, the citation node does not
  fail: it reports the file written, and the report is saved with, for an empty index
  list, the whole accumulated source list, and otherwise, in the order of the indices,
  the source at position \<open>i - 1\<close> for each index \<open>i\<close> with \<open>0 < i\<close> and \<open>i\<close> at most the
  number of accumulated sources, every other index being dropped.
\<close>

theorem citation_indices_safe:
  assumes "dict_get d ''citations_used'' (JArr []) = JArr (map JInt cits)"
  shows "citation_agent_node py_str (Inr (JObj d)) (Inr report_file) state =
           (state\<lparr>messages := messages state @
              [AIMessage (''# Research Report'' @ [CHR 0x0A, CHR 0x0A] @
                 py_str (dict_get d ''report'' (memory_context state)) @
                 [CHR 0x0A, CHR 0x0A] @ ''---'' @ [CHR 0x0A] @
                 ''*Report saved to: '' @ report_file @ ''*'')]\<rparr>,
            Some (dict_get d ''report'' (memory_context state),
                  if cits = [] then all_sources state
                  else map (\<lambda>i. all_sources state ! nat (i - 1))
                         (filter (\<lambda>i. 0 < i \<and> i \<le> int (length (all_sources state))) cits)))"
  using assms by (simp add: citation_agent_node_def Let_def cited_sources_ints)

theorem citation_indices_safe_witness:
  "dict_get cite_items ''citations_used'' (JArr []) = JArr (map JInt [0, 1, 3, 2, - 1]) \<and>
   snd (citation_agent_node (\<lambda>v. ''text'') (Inr (JObj cite_items)) (Inr ''final_report.md'')
          cite_state) =
     Some (JStr ''Findings [1][2]'', [first_seen, seen_again]) \<and>
   dict_get [(''report'', JStr ''Findings'')] ''citations_used'' (JArr []) = JArr (map JInt []) \<and>
   snd (citation_agent_node (\<lambda>v. ''text'') (Inr (JObj [(''report'', JStr ''Findings'')]))
          (Inr ''final_report.md'') cite_state) =
     Some (JStr ''Findings'', [first_seen, seen_again])"
proof -
  have a: "dict_get cite_items ''citations_used'' (JArr []) = JArr (map JInt [0, 1, 3, 2, - 1])"
    by (simp add: cite_items_def dict_get_def)
  have b: "dict_get [(''report'', JStr ''Findings'')] ''citations_used'' (JArr []) =
     JArr (map JInt [])"
    by (simp add: dict_get_def)
  have s: "all_sources cite_state = [first_seen, seen_again]"
    by (simp add: cite_state_def)
  have r: "dict_get cite_items ''report'' (memory_context cite_state) = JStr ''Findings [1][2]''"
    "dict_get [(''report'', JStr ''Findings'')] ''report'' (memory_context cite_state) =
       JStr ''Findings''"
    by (simp_all add: cite_items_def dict_get_def)
  from citation_indices_safe [OF a, of "\<lambda>v. ''text''" "''final_report.md''" cite_state]
    citation_indices_safe [OF b, of "\<lambda>v. ''text''" "''final_report.md''" cite_state]
    a b s r
  show ?thesis by simp
qed

section \<open>Properties of the synthesis step\<close>

lemma fold_append_blocks:
  "fold (\<lambda>x acc. acc @ f x) xs init = init @ concat (map f xs)"
  by (induction xs arbitrary: init) simp_all

lemma create_synthesis_blocks:
  "create_synthesis_from_results rs =
     (if rs = [] then ''No research findings available.''
      else ''## Research Findings'' @ [CHR 0x0A, CHR 0x0A] @
           concat (map (\<lambda>r. ''### '' @ result_task_id r @ [CHR 0x0A, CHR 0x0A] @
                             findings r @ [CHR 0x0A, CHR 0x0A]) rs))"
  by (simp add: create_synthesis_from_results_def fold_append_blocks)

lemma create_synthesis_nonempty: "create_synthesis_from_results rs \<noteq> []"
  by (simp add: create_synthesis_blocks)

text \<open>
  C8. When the synthesis response cannot be parsed, the node marks the research
  complete, so that the route is the one to citation, and stores the locally computed
  synthesis; that text is never empty, it is \<open>No research findings available.\<close> for
  an empty batch, and for a non-empty batch it is the heading followed by one block per
  finding, labelled with the task id and holding the finding's narrative.
\<close>

theorem synthesis_fallback:
  "research_complete (lead_researcher_synthesis_node (Inl e) progress state) \<and>
   should_continue_research (lead_researcher_synthesis_node (Inl e) progress state) = Citation \<and>
   memory_context (lead_researcher_synthesis_node (Inl e) progress state) =
     JStr (create_synthesis_from_results (subagent_results state)) \<and>
   create_synthesis_from_results (subagent_results state) \<noteq> [] \<and>
   create_synthesis_from_results [] = ''No research findings available.'' \<and>
   create_synthesis_from_results (r # rs) =
     ''## Research Findings'' @ [CHR 0x0A, CHR 0x0A] @
     concat (map (\<lambda>r. ''### '' @ result_task_id r @ [CHR 0x0A, CHR 0x0A] @
                       findings r @ [CHR 0x0A, CHR 0x0A]) (r # rs))"
proof -
  have "create_synthesis_from_results (r # rs) =
     ''## Research Findings'' @ [CHR 0x0A, CHR 0x0A] @
     concat (map (\<lambda>r. ''### '' @ result_task_id r @ [CHR 0x0A, CHR 0x0A] @
                       findings r @ [CHR 0x0A, CHR 0x0A]) (r # rs))"
    by (simp only: create_synthesis_blocks list.distinct if_False)
  moreover have "create_synthesis_from_results [] = ''No research findings available.''"
    by (simp add: create_synthesis_from_results_def)
  moreover have "research_complete (lead_researcher_synthesis_node (Inl e) progress state)"
    by (simp add: lead_researcher_synthesis_node_def Let_def)
  moreover have "should_continue_research (lead_researcher_synthesis_node (Inl e) progress state) = Citation"
    by (simp add: lead_researcher_synthesis_node_def Let_def should_continue_research_def)
  moreover have "memory_context (lead_researcher_synthesis_node (Inl e) progress state) =
     JStr (create_synthesis_from_results (subagent_results state))"
    by (simp add: lead_researcher_synthesis_node_def Let_def)
  ultimately show ?thesis using create_synthesis_nonempty by blast
qed

text \<open>
  C5. When the synthesis response asks for more research and no proposed next subtask
  survives validation, the synthesis step marks the research complete and the graph
  moves on to the citation node instead of looping.
\<close>

theorem forced_termination:
  assumes "env_synthesis e state = Inr (JObj d)"
    and "truthy (dict_get d ''needs_more_research'' (JBool False))"
    and "\<forall>candidates. py_iter (dict_get d ''next_tasks'' (JArr [])) = Some candidates
           \<longrightarrow> new_tasks_from candidates = []"
  shows "research_complete (snd (step e lead_synthesis state)) \<and>
         fst (step e lead_synthesis state) = citation_agent"
proof -
  let ?s = "lead_researcher_synthesis_node (Inr (JObj d)) (env_progress e state) state"
  have c: "research_complete ?s"
    using assms(3)
    by (auto simp: lead_researcher_synthesis_node_def Let_def split: sum.splits option.splits)
  then have "should_continue_research ?s = Citation"
    by (simp add: should_continue_research_def)
  with c assms(1) show ?thesis by (simp add: Let_def)
qed

theorem forced_termination_witness:
  "env_synthesis (const_env (Inl ''unused'') (Inr (JObj stalled_items))) round1_state =
     Inr (JObj stalled_items) \<and>
   truthy (dict_get stalled_items ''needs_more_research'' (JBool False)) \<and>
   py_iter (dict_get stalled_items ''next_tasks'' (JArr [])) =
     Some [JObj [(''task_id'', JStr ''n1'')], JStr ''look further''] \<and>
   new_tasks_from [JObj [(''task_id'', JStr ''n1'')], JStr ''look further''] = [] \<and>
   research_complete
     (snd (step (const_env (Inl ''unused'') (Inr (JObj stalled_items))) lead_synthesis round1_state)) \<and>
   fst (step (const_env (Inl ''unused'') (Inr (JObj stalled_items))) lead_synthesis round1_state) =
     citation_agent"
proof -
  have a: "env_synthesis (const_env (Inl ''unused'') (Inr (JObj stalled_items))) round1_state =
     Inr (JObj stalled_items)"
    by (simp add: const_env_def)
  have b: "truthy (dict_get stalled_items ''needs_more_research'' (JBool False))"
    by (simp add: stalled_items_def dict_get_def)
  have c: "py_iter (dict_get stalled_items ''next_tasks'' (JArr [])) =
     Some [JObj [(''task_id'', JStr ''n1'')], JStr ''look further'']"
    by (simp add: stalled_items_def dict_get_def)
  have d: "new_tasks_from [JObj [(''task_id'', JStr ''n1'')], JStr ''look further''] = []"
    by (simp add: required_keys_def)
  have "\<forall>candidates. py_iter (dict_get stalled_items ''next_tasks'' (JArr [])) = Some candidates
           \<longrightarrow> new_tasks_from candidates = []"
    using c d by simp
  from forced_termination [OF a b this] a b c d show ?thesis by simp
qed

lemma str_field_Some: "str_field d k = Some s \<longleftrightarrow> map_of d k = Some (JStr s)"
  by (auto simp: str_field_def split: option.splits json.splits)

lemma make_SubagentTask_Some: "make_SubagentTask d = Some t \<longleftrightarrow> has_fields d t"
  unfolding make_SubagentTask_def has_fields_def bind_eq_Some_conv str_field_Some
  by (cases t) auto

lemma has_fields_keys: "has_fields d t \<Longrightarrow> list_all (\<lambda>k. map_of d k \<noteq> None) required_keys"
  by (simp add: has_fields_def required_keys_def)

lemma next_task_Some: "next_task v = Some t \<longleftrightarrow> (\<exists>d. v = JObj d \<and> has_fields d t)"
proof (cases v)
  case (JObj d)
  show ?thesis
  proof
    assume "next_task v = Some t"
    with JObj have "make_SubagentTask d = Some t" by (simp split: if_splits)
    with JObj show "\<exists>d. v = JObj d \<and> has_fields d t" by (simp add: make_SubagentTask_Some)
  next
    assume "\<exists>d. v = JObj d \<and> has_fields d t"
    with JObj have h: "has_fields d t" by simp
    then have "make_SubagentTask d = Some t" by (simp add: make_SubagentTask_Some)
    with has_fields_keys [OF h] JObj show "next_task v = Some t" by simp
  qed
qed simp_all

lemma has_fields_unique: "has_fields d t \<Longrightarrow> has_fields d t' \<Longrightarrow> t' = t"
  by (simp add: has_fields_def)

lemma new_tasks_from_set:
  "set (new_tasks_from cands) = {t. \<exists>d. JObj d \<in> set cands \<and> has_fields d t}"
proof (induction cands)
  case Nil
  then show ?case by simp
next
  case (Cons v cands)
  show ?case
  proof (cases "next_task v")
    case None
    then have n: "\<And>t d. v = JObj d \<Longrightarrow> \<not> has_fields d t"
      using next_task_Some [of v] by simp
    have "set (new_tasks_from (v # cands)) = set (new_tasks_from cands)" using None by simp
    also have "\<dots> = {t. \<exists>d. JObj d \<in> set cands \<and> has_fields d t}" by (rule Cons.IH)
    also have "\<dots> = {t. \<exists>d. JObj d \<in> set (v # cands) \<and> has_fields d t}"
      using n by auto
    finally show ?thesis .
  next
    case (Some t)
    then obtain d where d: "v = JObj d" "has_fields d t" using next_task_Some by blast
    have "set (new_tasks_from (v # cands)) = insert t (set (new_tasks_from cands))"
      using Some by simp
    also have "\<dots> = insert t {t. \<exists>d. JObj d \<in> set cands \<and> has_fields d t}"
      by (simp only: Cons.IH)
    also have "\<dots> = {t. \<exists>d. JObj d \<in> set (v # cands) \<and> has_fields d t}"
    proof (intro set_eqI iffI)
      fix x assume "x \<in> insert t {t. \<exists>d. JObj d \<in> set cands \<and> has_fields d t}"
      then consider "x = t" | d' where "JObj d' \<in> set cands" "has_fields d' x" by blast
      then show "x \<in> {t. \<exists>d. JObj d \<in> set (v # cands) \<and> has_fields d t}"
      proof cases
        case 1
        with d have "JObj d \<in> set (v # cands) \<and> has_fields d x" by simp
        then show ?thesis by blast
      next
        case 2
        then have "JObj d' \<in> set (v # cands) \<and> has_fields d' x" by simp
        then show ?thesis by blast
      qed
    next
      fix x assume "x \<in> {t. \<exists>d. JObj d \<in> set (v # cands) \<and> has_fields d t}"
      then obtain d' where d': "JObj d' \<in> set (v # cands)" "has_fields d' x" by blast
      show "x \<in> insert t {t. \<exists>d. JObj d \<in> set cands \<and> has_fields d t}"
      proof (cases "JObj d' = v")
        case True
        with d(1) have "d' = d" by simp
        with d' d(2) have "x = t" using has_fields_unique by blast
        then show ?thesis by simp
      next
        case False
        with d' have "JObj d' \<in> set cands" by auto
        with d'(2) show ?thesis by blast
      qed
    qed
    finally show ?thesis .
  qed
qed


text \<open>
  C9 (as amended). The subtasks accepted for the next round are exactly those given by
  a candidate that is a dict carrying all six fields (id, objective and the four other
  directives) as strings; every other candidate is dropped. Whether the id or the
  objective is empty is not looked at.
\<close>

theorem accepted_tasks:
  "set (new_tasks_from candidates) =
     {t. \<exists>d. JObj d \<in> set candidates \<and> has_fields d t}"
  by (rule new_tasks_from_set)

text \<open>
  A candidate with an empty id and an empty objective is accepted for the next round.
\<close>

theorem blank_task_counterexample:
  "subagent_tasks
     (lead_researcher_synthesis_node (Inr (JObj blank_items)) (Inr ''research_progress.md'')
        round1_state) =
     [\<lparr>task_id = [], objective = [], search_strategy = ''broad'', output_format = ''list'',
       tool_guidance = ''search_web'', boundaries = ''none''\<rparr>] \<and>
   \<not> research_complete
     (lead_researcher_synthesis_node (Inr (JObj blank_items)) (Inr ''research_progress.md'')
        round1_state)"
  by (simp add: lead_researcher_synthesis_node_def Let_def blank_items_def dict_get_def
      round1_state_def get_initial_state_def required_keys_def make_SubagentTask_def
      str_field_def)


section \<open>Properties of the workflow graph\<close>

lemma more_items_tasks:
  "py_iter (dict_get more_items ''next_tasks'' (JArr [])) =
     Some [JObj [(''task_id'', JStr ''n1''), (''objective'', JStr ''find facts''),
                     (''search_strategy'', JStr ''broad''), (''output_format'', JStr ''list''),
                     (''tool_guidance'', JStr ''search_web''), (''boundaries'', JStr ''none'')]]
   \<and> new_tasks_from [JObj [(''task_id'', JStr ''n1''), (''objective'', JStr ''find facts''),
                     (''search_strategy'', JStr ''broad''), (''output_format'', JStr ''list''),
                     (''tool_guidance'', JStr ''search_web''), (''boundaries'', JStr ''none'')]]
     = [mk_task ''n1'']
   \<and> truthy (dict_get more_items ''needs_more_research'' (JBool False))"
  by (simp add: more_items_def dict_get_def required_keys_def make_SubagentTask_def
      str_field_def mk_task_def)

lemma find_query_append_AI [simp]:
  "find_query (rev (ms @ [AIMessage a])) = find_query (rev ms)"
  by simp

lemma loop_planning:
  assumes "find_query (rev (messages st)) = ''query''" "max_iterations st = 3"
  shows "fst (step loop_env lead_planning st) = subagent_executor"
    "iteration_count (snd (step loop_env lead_planning st)) = 1"
    "max_iterations (snd (step loop_env lead_planning st)) = 3"
    "find_query (rev (messages (snd (step loop_env lead_planning st)))) = ''query''"
    "subagent_tasks (snd (step loop_env lead_planning st)) = [mk_task ''p1'']"
  using assms
  by (simp_all add: loop_env_def const_env_def lead_researcher_planning_node_def Let_def
      has_tasks_def plan_one_def)

lemma loop_executor:
  assumes "find_query (rev (messages st)) = ''query''" "max_iterations st = 3"
    "iteration_count st = 1"
  shows "fst (step loop_env subagent_executor st) = lead_synthesis"
    "iteration_count (snd (step loop_env subagent_executor st)) = 1"
    "max_iterations (snd (step loop_env subagent_executor st)) = 3"
    "find_query (rev (messages (snd (step loop_env subagent_executor st)))) = ''query''"
  using assms
  by (simp_all add: subagent_executor_node_def Let_def)

lemma loop_synthesis:
  assumes "find_query (rev (messages st)) = ''query''" "max_iterations st = 3"
    "iteration_count st = 1"
  shows "fst (step loop_env lead_synthesis st) = lead_planning"
    "iteration_count (snd (step loop_env lead_synthesis st)) = 2"
    "max_iterations (snd (step loop_env lead_synthesis st)) = 3"
    "find_query (rev (messages (snd (step loop_env lead_synthesis st)))) = ''query''"
    "subagent_tasks (snd (step loop_env lead_synthesis st)) = [mk_task ''n1'']"
  using assms more_items_tasks
  by (simp_all add: loop_env_def const_env_def lead_researcher_synthesis_node_def Let_def
      should_continue_research_def)

lemma loop_never_ends:
  assumes "find_query (rev (messages st)) = ''query''" "max_iterations st = 3"
    "nd = lead_planning \<or> (nd = subagent_executor \<or> nd = lead_synthesis) \<and> iteration_count st = 1"
  shows "run loop_env fuel nd st = None"
  using assms
proof (induction fuel arbitrary: nd st)
  case 0
  then show ?case by auto
next
  case (Suc fuel)
  from Suc.prems(3) consider "nd = lead_planning"
    | "nd = subagent_executor" "iteration_count st = 1"
    | "nd = lead_synthesis" "iteration_count st = 1" by blast
  then show ?case
  proof cases
    case 1
    have "run loop_env (Suc fuel) lead_planning st =
       run loop_env fuel (fst (step loop_env lead_planning st)) (snd (step loop_env lead_planning st))"
      by (simp add: case_prod_beta)
    also have "\<dots> = None"
      using loop_planning [OF Suc.prems(1,2)] by (intro Suc.IH) simp_all
    finally show ?thesis using 1 by simp
  next
    case 2
    have "run loop_env (Suc fuel) subagent_executor st =
       run loop_env fuel (fst (step loop_env subagent_executor st))
         (snd (step loop_env subagent_executor st))"
      by (simp add: case_prod_beta)
    also have "\<dots> = None"
      using loop_executor [OF Suc.prems(1,2) 2(2)] by (intro Suc.IH) simp_all
    finally show ?thesis using 2 by simp
  next
    case 3
    have "run loop_env (Suc fuel) lead_synthesis st =
       run loop_env fuel (fst (step loop_env lead_synthesis st))
         (snd (step loop_env lead_synthesis st))"
      by (simp add: case_prod_beta)
    also have "\<dots> = None"
      using loop_synthesis [OF Suc.prems(1,2) 3(2)] by (intro Suc.IH) simp_all
    finally show ?thesis using 3 by simp
  qed
qed


lemma start_props:
  "find_query (rev (messages start_state)) = ''query''" "max_iterations start_state = 3"
  by (simp_all add: start_state_def get_initial_state_def)

lemma round1_props:
  "find_query (rev (messages round1_state)) = ''query''" "max_iterations round1_state = 3"
  "iteration_count round1_state = 1"
  by (simp_all add: round1_state_def get_initial_state_def)

text \<open>
  C1. With the default budget of three iterations, a planner that always gives a plan
  and a synthesis that always asks for more research with a well-formed next subtask,
  the graph never reaches its end, whatever the number of steps; and the iteration
  counter is 1 on entry to the first synthesis pass (after two steps) and 1 again on
  entry to the second (after five steps): each planning pass sets it back to 1.
\<close>

theorem research_loop_unbounded:
  "run loop_env fuel lead_planning start_state = None \<and>
   fst (steps loop_env 2 (lead_planning, start_state)) = lead_synthesis \<and>
   iteration_count (snd (steps loop_env 2 (lead_planning, start_state))) = 1 \<and>
   fst (steps loop_env 5 (lead_planning, start_state)) = lead_synthesis \<and>
   iteration_count (snd (steps loop_env 5 (lead_planning, start_state))) = 1"
proof -
  let ?c = "\<lambda>n. steps loop_env n (lead_planning, start_state)"
  have r: "run loop_env fuel lead_planning start_state = None"
    using start_props by (intro loop_never_ends) simp_all
  have n2: "(2::nat) = Suc (Suc 0)" and n5: "(5::nat) = Suc (Suc (Suc (Suc (Suc 0))))"
    by simp_all
  let ?s1 = "snd (step loop_env lead_planning start_state)"
  note p1 = loop_planning [OF start_props]
  let ?s2 = "snd (step loop_env subagent_executor ?s1)"
  note p2 = loop_executor [OF p1(4) p1(3) p1(2)]
  let ?s3 = "snd (step loop_env lead_synthesis ?s2)"
  note p3 = loop_synthesis [OF p2(4) p2(3) p2(2)]
  let ?s4 = "snd (step loop_env lead_planning ?s3)"
  note p4 = loop_planning [OF p3(4) p3(3)]
  let ?s5 = "snd (step loop_env subagent_executor ?s4)"
  note p5 = loop_executor [OF p4(4) p4(3) p4(2)]
  have c2: "?c 2 = (lead_synthesis, ?s2)"
    unfolding n2 steps.simps fst_conv snd_conv
    by (metis p1(1) p2(1) prod.collapse)
  have c5: "?c 5 = (lead_synthesis, ?s5)"
    unfolding n5 steps.simps fst_conv snd_conv
    by (metis p1(1) p2(1) p3(1) p4(1) p5(1) prod.collapse)
  show ?thesis using r c2 c5 p2(2) p5(2) by simp
qed




text \<open>
  C7 (as amended). When the planning response cannot be turned into a plan, the
  planning step changes nothing in the state except for appending the message
  \<open>Error creating research plan: reason\<close>: no plan is stored, the pending subtasks and
  the iteration counter stay as they were. The graph then goes to synthesis when no
  subtask is pending, as in the first round, and to the executor otherwise.
\<close>

theorem planning_failure:
  assumes "find_query (rev (messages state)) \<noteq> []"
    and "env_planner e state = Inl reason"
  shows "snd (step e lead_planning state) =
           state\<lparr>messages := messages state @
                   [AIMessage (''Error creating research plan: '' @ reason)]\<rparr> \<and>
         fst (step e lead_planning state) =
           (if subagent_tasks state = [] then lead_synthesis else subagent_executor)"
  using assms by (simp add: Let_def lead_researcher_planning_node_def has_tasks_def)

theorem planning_failure_witness:
  "find_query (rev (messages start_state)) \<noteq> [] \<and>
   env_planner (const_env (Inl ''Expecting value'') (Inl ''Expecting value'')) start_state =
     Inl ''Expecting value'' \<and>
   step (const_env (Inl ''Expecting value'') (Inl ''Expecting value'')) lead_planning start_state =
     (lead_synthesis,
      start_state\<lparr>messages := [HumanMessage ''query'',
         AIMessage ''Error creating research plan: Expecting value'']\<rparr>) \<and>
   subagent_results (snd (step (const_env (Inl ''Expecting value'') (Inl ''Expecting value''))
     lead_planning start_state)) = []"
proof -
  have a: "find_query (rev (messages start_state)) \<noteq> []" using start_props(1) by simp
  have b: "env_planner (const_env (Inl ''Expecting value'') (Inl ''Expecting value'')) start_state =
     Inl ''Expecting value''" by (simp add: const_env_def)
  have c: "subagent_tasks start_state = []" "subagent_results start_state = []"
    "messages start_state = [HumanMessage ''query'']"
    by (simp_all add: start_state_def get_initial_state_def)
  from planning_failure [OF a b] a b c show ?thesis
    by (simp add: prod_eq_iff)
qed

text \<open>
  After a failed planning pass on a fresh session no plan is stored, so none with the
  strategy \<open>planning failed: Expecting value\<close>.
\<close>

theorem degraded_plan_counterexample:
  "research_plan (lead_researcher_planning_node (Inl ''Expecting value'') start_state) = None \<and>
   map_option strategy
     (research_plan (lead_researcher_planning_node (Inl ''Expecting value'') start_state))
     \<noteq> Some ''planning failed: Expecting value''"
  by (simp add: lead_researcher_planning_node_def Let_def start_state_def get_initial_state_def)


end
